theory Spec2Isabelle
  imports Complex_Main
begin

section \<open>Data model (src/types.ts)\<close>

text \<open>
  Finite JavaScript numbers are modelled as \<^typ>\<open>real\<close>: comparisons, \<open>Math.max\<close> and
  \<open>Math.min\<close> are exact, and the sums and differences of the metrics, of the preview and
  of the relative skip are read over the reals. The mapping between times and timeline
  fractions, where the result of a quotient and a product is fed back as a time, carries
  its rounding as a parameter \<open>rnd\<close> (see \<open>handleScrubMove\<close>), and its quotients are
  written out with their zero divisor (see \<open>js_div\<close>), because HOL's \<open>x / 0 = 0\<close> is not
  what JavaScript computes.
\<close>

datatype CutType = cliche | filler | silence | repetition | stutter

datatype Status = accepted | rejected

text \<open>
  \<open>interface CutEvent\<close>. The fields \<open>id\<close>, \<open>type\<close> and \<open>end\<close> carry the suffix
  \<open>_cut\<close>, since the plain names are taken in Isabelle; \<open>word\<close> is optional in the source.
\<close>

record CutEvent =
  id_cut :: string
  type_cut :: CutType
  word :: "string option"
  start :: real
  end_cut :: real
  confidence :: real
  status :: Status

text \<open>\<open>interface ProcessingMetrics\<close>.\<close>

record ProcessingMetrics =
  originalDuration :: real
  finalDuration :: real
  cutsCount :: nat
  timeSaved :: real

section \<open>Metrics (application root) and stats (review view)\<close>

text \<open>
  \<open>calculateMetrics\<close> of the application root reads the component state \<open>cuts\<close> and
  \<open>originalDuration\<close>; both are parameters here. \<open>Array.prototype.reduce\<close> with an
  initial value is a left fold.
\<close>

definition calculateMetrics :: "CutEvent list \<Rightarrow> real \<Rightarrow> ProcessingMetrics" where
  "calculateMetrics cuts origDuration =
     (let acceptedCuts = filter (\<lambda>c. status c = accepted) cuts;
          saved = foldl (\<lambda>acc curr. acc + (end_cut curr - start curr)) 0 acceptedCuts
      in \<lparr> originalDuration = origDuration,
           finalDuration = origDuration - saved,
           cutsCount = length acceptedCuts,
           timeSaved = saved \<rparr>)"

text \<open>The memoised \<open>stats\<close> of the review view: \<open>{ count, timeSaved }\<close> as a pair.\<close>

definition stats :: "CutEvent list \<Rightarrow> nat \<times> real" where
  "stats cuts =
     (let acc_cuts = filter (\<lambda>c. status c = accepted) cuts;
          saved = foldl (\<lambda>acc c. acc + (end_cut c - start c)) 0 acc_cuts
      in (length acc_cuts, saved))"

text \<open>
  \<open>toggleCutStatus\<close>: the updater handed to \<open>setCuts\<close>, applied to the previous list.
  The object spread \<open>{ ...c, status }\<close> copies every field and overrides \<open>status\<close>.
\<close>

definition toggleCutStatus :: "string \<Rightarrow> Status \<Rightarrow> CutEvent list \<Rightarrow> CutEvent list" where
  "toggleCutStatus i st prev = map (\<lambda>c. if id_cut c = i then c\<lparr>status := st\<rparr> else c) prev"

section \<open>The review view (src/components/ReviewPhase.tsx)\<close>

subsection \<open>Numbers that may not be finite\<close>

text \<open>
  A JavaScript number that can be the result of a quotient: a finite number, \<open>NaN\<close> or
  an infinity.
\<close>

datatype jsnum = Num real | NaN | PosInfinity | NegInfinity

text \<open>
  The quotient of two finite numbers, with the zero divisor written out (the divisors
  here are the state cell \<open>duration\<close> and the width of a rectangle, never \<open>-0\<close>) and
  the finite result rounded by \<open>rnd\<close>.
\<close>

definition js_div :: "(real \<Rightarrow> real) \<Rightarrow> real \<Rightarrow> real \<Rightarrow> jsnum" where
  "js_div rnd a b =
     (if b = 0 then (if a = 0 then NaN else if a > 0 then PosInfinity else NegInfinity)
      else Num (rnd (a / b)))"

text \<open>
  What the theorems below ask of a rounding function. Round-to-nearest on doubles is
  monotone and leaves every double unchanged, 0 and 1 among them; below the overflow
  threshold its error at \<open>x\<close> is at most \<open>u * \<bar>x\<bar> + h\<close> with \<open>u = 2 ^ -53\<close> and
  \<open>h = 2 ^ -1075\<close>.
\<close>

definition monotoneRounding :: "(real \<Rightarrow> real) \<Rightarrow> bool" where
  "monotoneRounding rnd \<longleftrightarrow> (\<forall>x y. x \<le> y \<longrightarrow> rnd x \<le> rnd y) \<and> rnd 0 = 0 \<and> rnd 1 = 1"

definition errorWithin :: "real \<Rightarrow> real \<Rightarrow> (real \<Rightarrow> real) \<Rightarrow> real \<Rightarrow> bool" where
  "errorWithin u h rnd x \<longleftrightarrow> \<bar>rnd x - x\<bar> \<le> u * \<bar>x\<bar> + h"

text \<open>
  A rounding function to compute with: to the nearest multiple of \<open>1/1000\<close>.
\<close>

definition fixed3 :: "real \<Rightarrow> real" where
  "fixed3 x = of_int (round (x * 1000)) / 1000"

subsection \<open>State\<close>

text \<open>
  What the component reads of the \<open>HTMLVideoElement\<close> behind \<open>videoRef\<close>: its
  \<open>paused\<close> flag and its \<open>currentTime\<close>. An assignment to \<open>currentTime\<close> is recorded
  with the value the component writes; only finite values can be written.
\<close>

record VideoElement =
  paused :: bool
  video_currentTime :: real

text \<open>The two fields read of \<open>timelineRef.current.getBoundingClientRect()\<close>.\<close>

record DOMRect =
  rect_left :: real
  rect_width :: real

text \<open>
  The \<open>useState\<close> cells, the two \<open>useRef\<close> cells and the \<open>cuts\<close> property of the
  component. \<open>videoRef\<close> and \<open>timelineRef\<close> are \<open>None\<close> while the element is not
  mounted (\<open>ref.current === null\<close>). The cell \<open>currentTime\<close> can come to hold \<open>NaN\<close>
  (see \<open>handleScrubMove\<close>). The cell \<open>duration\<close> holds a finite number: 0 until the
  metadata has loaded, then the duration the media reports; media that report an
  infinite duration are not covered.
\<close>

record ReviewState =
  videoRef :: "VideoElement option"
  timelineRef :: "DOMRect option"
  isPlaying :: bool
  currentTime :: jsnum
  duration :: real
  activeCutId :: "string option"
  isScrubbing :: bool
  hoverTime :: "real option"
  wasPlayingRef :: bool
  previewEndTimeRef :: "real option"
  cuts :: "CutEvent list"

text \<open>
  \<open>TypeError\<close>: assigning a number that is not finite to
  \<open>HTMLMediaElement.currentTime\<close> throws. A handler that throws returns \<open>Inl\<close> with
  the error and the state as the statements before the throw have left it.
\<close>

datatype error = TypeError

subsection \<open>The playback loop\<close>

text \<open>The predicate of \<open>cuts.find\<close> in the skip logic of \<open>checkTime\<close>.\<close>

definition inAcceptedCut :: "real \<Rightarrow> CutEvent \<Rightarrow> bool" where
  "inAcceptedCut time c \<longleftrightarrow> status c = accepted \<and> time \<ge> start c \<and> time < end_cut c"

text \<open>\<open>currentCut\<close>: the first cut of the list that satisfies the predicate, if any.\<close>

definition currentCut :: "CutEvent list \<Rightarrow> real \<Rightarrow> CutEvent option" where
  "currentCut cs time = find (inAcceptedCut time) cs"

text \<open>
  One run of \<open>checkTime\<close>, the body of the animation-frame loop (every run ends by
  scheduling the next one). \<open>videoRef.current.pause()\<close> sets \<open>paused\<close>.
\<close>

definition checkTime :: "ReviewState \<Rightarrow> ReviewState" where
  "checkTime s =
     (if isScrubbing s then s
      else case videoRef s of
        None \<Rightarrow> s
      | Some v \<Rightarrow>
          if \<not> paused v then
            (let time = video_currentTime v;
                 s1 = s\<lparr>currentTime := Num time\<rparr>
             in case previewEndTimeRef s of
                  Some previewEnd \<Rightarrow>
                    if time \<ge> previewEnd
                    then s1\<lparr>videoRef := Some (v\<lparr>paused := True\<rparr>),
                            isPlaying := False,
                            previewEndTimeRef := None\<rparr>
                    else (case find (\<lambda>c. time \<ge> start c - 1.5 \<and> time \<le> end_cut c + 1.5) (cuts s) of
                            Some currentPreviewCut \<Rightarrow> s1\<lparr>activeCutId := Some (id_cut currentPreviewCut)\<rparr>
                          | None \<Rightarrow> s1)
                | None \<Rightarrow>
                    (case currentCut (cuts s) time of
                       Some c \<Rightarrow>
                         s1\<lparr>activeCutId := Some (id_cut c),
                            videoRef := Some (v\<lparr>video_currentTime := end_cut c\<rparr>)\<rparr>
                     | None \<Rightarrow>
                         s1\<lparr>activeCutId :=
                              map_option id_cut (find (\<lambda>c. \<bar>start c - time\<bar> < 2) (cuts s))\<rparr>))
          else (if paused v \<noteq> (\<not> isPlaying s) then s\<lparr>isPlaying := \<not> paused v\<rparr> else s))"

text \<open>
  The animation-frame loop run for \<open>n\<close> frames: \<open>checkTime\<close>, which schedules itself,
  \<open>n\<close> times in a row. Between two frames nothing else touches the state, so the
  video's time moves only when \<open>checkTime\<close> writes it: this is the skip policy iterated on
  a position that does not advance by itself.
\<close>

fun runLoop :: "nat \<Rightarrow> ReviewState \<Rightarrow> ReviewState" where
  "runLoop 0 s = s"
| "runLoop (Suc n) s = runLoop n (checkTime s)"

text \<open>
  The measure of the iteration: the number of accepted cuts that end after \<open>t\<close>.
\<close>

definition pending :: "CutEvent list \<Rightarrow> real \<Rightarrow> nat" where
  "pending cs t = length (filter (\<lambda>c. status c = accepted \<and> t < end_cut c) cs)"

subsection \<open>Commands\<close>

text \<open>
  \<open>videoRef.current.play()\<close> returns a promise; \<open>playOk\<close> says whether it resolves.
  When it does, the element is playing and \<open>setIsPlaying(true)\<close> runs; when it rejects,
  the error is logged and nothing else changes.
\<close>

definition previewCut :: "bool \<Rightarrow> ReviewState \<Rightarrow> CutEvent \<Rightarrow> ReviewState" where
  "previewCut playOk s cut' =
     (let s1 = s\<lparr>activeCutId := Some (id_cut cut')\<rparr>
      in case videoRef s of
           None \<Rightarrow> s1
         | Some v \<Rightarrow>
             (let start' = max 0 (start cut' - 1);
                  end' = min (duration s) (end_cut cut' + 1);
                  v1 = v\<lparr>video_currentTime := start'\<rparr>
              in if playOk
                 then s1\<lparr>previewEndTimeRef := Some end',
                         videoRef := Some (v1\<lparr>paused := False\<rparr>),
                         isPlaying := True\<rparr>
                 else s1\<lparr>previewEndTimeRef := Some end', videoRef := Some v1\<rparr>))"

definition skip :: "ReviewState \<Rightarrow> real \<Rightarrow> ReviewState" where
  "skip s seconds =
     (case videoRef s of
        None \<Rightarrow> s
      | Some v \<Rightarrow>
          (let newTime = max 0 (min (duration s) (video_currentTime v + seconds))
           in s\<lparr>videoRef := Some (v\<lparr>video_currentTime := newTime\<rparr>),
                currentTime := Num newTime,
                previewEndTimeRef := None\<rparr>))"

text \<open>
  \<open>handleScrubMove\<close>, with \<open>e.clientX\<close> as its second argument; the difference, the
  quotient and the product are rounded by \<open>rnd\<close>. On a timeline of width 0, \<open>x\<close> is 0
  and \<open>x / rect.width\<close> is \<open>0 / 0\<close>: \<open>percentage\<close> and \<open>newTime\<close> are \<open>NaN\<close>,
  \<open>setCurrentTime(NaN)\<close> runs, and the assignment of \<open>NaN\<close> to the video's
  \<open>currentTime\<close> throws before the active cut is set.
\<close>

definition handleScrubMove ::
  "(real \<Rightarrow> real) \<Rightarrow> ReviewState \<Rightarrow> real \<Rightarrow> (error \<times> ReviewState) + ReviewState" where
  "handleScrubMove rnd s clientX =
     (case (timelineRef s, videoRef s) of
        (Some rect, Some v) \<Rightarrow>
          if duration s > 0 then
            (let x = max 0 (min (rnd (clientX - rect_left rect)) (rect_width rect))
             in case js_div rnd x (rect_width rect) of
                  Num percentage \<Rightarrow>
                    (let newTime = rnd (percentage * duration s)
                     in Inr (s\<lparr>currentTime := Num newTime,
                               videoRef := Some (v\<lparr>video_currentTime := newTime\<rparr>),
                               activeCutId :=
                                 map_option id_cut
                                   (find (\<lambda>c. newTime \<ge> start c \<and> newTime < end_cut c)
                                      (cuts s))\<rparr>))
                | NaN \<Rightarrow> Inl (TypeError, s\<lparr>currentTime := NaN\<rparr>)
                | PosInfinity \<Rightarrow> Inl (TypeError, s\<lparr>currentTime := PosInfinity\<rparr>)
                | NegInfinity \<Rightarrow> Inl (TypeError, s\<lparr>currentTime := NegInfinity\<rparr>))
          else Inr s
      | _ \<Rightarrow> Inr s)"

text \<open>
  \<open>handleScrubStart\<close>. Pausing a playing video fires \<open>onPause\<close>, whose handler is
  \<open>setIsPlaying(false)\<close>. The handler ends with the call of \<open>handleScrubMove\<close>, whose
  outcome is its own.
\<close>

definition handleScrubStart ::
  "(real \<Rightarrow> real) \<Rightarrow> ReviewState \<Rightarrow> real \<Rightarrow> (error \<times> ReviewState) + ReviewState" where
  "handleScrubStart rnd s clientX =
     (case (timelineRef s, videoRef s) of
        (Some rect, Some v) \<Rightarrow>
          (let s1 = s\<lparr>isScrubbing := True, previewEndTimeRef := None\<rparr>;
               s2 = (if \<not> paused v
                     then s1\<lparr>wasPlayingRef := True,
                             videoRef := Some (v\<lparr>paused := True\<rparr>),
                             isPlaying := False\<rparr>
                     else s1\<lparr>wasPlayingRef := False\<rparr>)
           in handleScrubMove rnd s2 clientX)
      | _ \<Rightarrow> Inr s)"

subsection \<open>Time to timeline fraction\<close>

text \<open>
  The play head and the progress fill are placed at \<open>(currentTime / duration) * 100\<close>
  percent of the timeline: \<open>playheadFraction\<close> is the quotient, the fraction of the
  timeline's width. The expression is not guarded by \<open>duration > 0\<close>.
\<close>

definition playheadFraction :: "(real \<Rightarrow> real) \<Rightarrow> real \<Rightarrow> real \<Rightarrow> jsnum" where
  "playheadFraction rnd time dur = js_div rnd time dur"

subsection \<open>Example inputs\<close>

definition mkCut :: "string \<Rightarrow> real \<Rightarrow> real \<Rightarrow> Status \<Rightarrow> CutEvent" where
  "mkCut i a b st =
     \<lparr>id_cut = i, type_cut = filler, word = None, start = a, end_cut = b,
      confidence = 0.9, status = st\<rparr>"

text \<open>A mounted view whose video plays at time \<open>t\<close>, with no preview bound.\<close>

definition playingAt :: "CutEvent list \<Rightarrow> real \<Rightarrow> real \<Rightarrow> ReviewState" where
  "playingAt cs d t =
     \<lparr>videoRef = Some \<lparr>paused = False, video_currentTime = t\<rparr>,
      timelineRef = Some \<lparr>rect_left = 0, rect_width = 800\<rparr>,
      isPlaying = True, currentTime = Num t, duration = d, activeCutId = None,
      isScrubbing = False, hoverTime = None, wasPlayingRef = False,
      previewEndTimeRef = None, cuts = cs\<rparr>"

text \<open>A mounted view at rest at time \<open>t\<close>.\<close>

definition pausedAt :: "CutEvent list \<Rightarrow> real \<Rightarrow> real \<Rightarrow> ReviewState" where
  "pausedAt cs d t =
     \<lparr>videoRef = Some \<lparr>paused = True, video_currentTime = t\<rparr>,
      timelineRef = Some \<lparr>rect_left = 0, rect_width = 800\<rparr>,
      isPlaying = False, currentTime = Num t, duration = d, activeCutId = None,
      isScrubbing = False, hoverTime = None, wasPlayingRef = False,
      previewEndTimeRef = None, cuts = cs\<rparr>"

section \<open>Properties of the metrics\<close>

lemma foldl_duration_sum:
  "foldl (\<lambda>acc c. acc + (end_cut c - start c)) a xs = a + (\<Sum>c\<leftarrow>xs. end_cut c - start c)"
  by (induction xs arbitrary: a) simp_all

text \<open>
  Claim C6. For every cut list and original duration, \<open>timeSaved\<close> is the sum of
  \<open>end - start\<close> over the accepted cs, \<open>cutsCount\<close> is the number of accepted cs and
  \<open>finalDuration\<close> is the original duration minus \<open>timeSaved\<close>; on the three cs
  \<open>[2,4) accepted\<close>, \<open>[10,10.5) accepted\<close>, \<open>[20,21) rejected\<close> and an original duration
  of 60 the result is \<open>timeSaved = 2.5\<close>, \<open>cutsCount = 2\<close>, \<open>finalDuration = 57.5\<close>.
\<close>

theorem calculateMetrics_spec:
  "timeSaved (calculateMetrics cs d)
     = (\<Sum>c\<leftarrow>filter (\<lambda>c. status c = accepted) cs. end_cut c - start c)
   \<and> cutsCount (calculateMetrics cs d) = length (filter (\<lambda>c. status c = accepted) cs)
   \<and> finalDuration (calculateMetrics cs d) = d - timeSaved (calculateMetrics cs d)
   \<and> originalDuration (calculateMetrics cs d) = d
   \<and> calculateMetrics
        [\<lparr>id_cut = ''a'', type_cut = filler, word = None, start = 2, end_cut = 4,
          confidence = 0.9, status = accepted\<rparr>,
         \<lparr>id_cut = ''b'', type_cut = stutter, word = None, start = 10, end_cut = 10.5,
          confidence = 0.9, status = accepted\<rparr>,
         \<lparr>id_cut = ''c'', type_cut = silence, word = None, start = 20, end_cut = 21,
          confidence = 0.9, status = rejected\<rparr>] 60
       = \<lparr>originalDuration = 60, finalDuration = 57.5, cutsCount = 2, timeSaved = 2.5\<rparr>"
  by (simp add: calculateMetrics_def Let_def foldl_duration_sum)

text \<open>
  Claim C9. The accepted-cut count and the time saved shown by the review view (\<open>stats\<close>)
  equal the \<open>cutsCount\<close> and \<open>timeSaved\<close> fields that the application root computes
  (\<open>calculateMetrics\<close>) from the same cut list, whatever the original duration.
\<close>

theorem stats_agrees_with_calculateMetrics:
  "fst (stats cs) = cutsCount (calculateMetrics cs d)
   \<and> snd (stats cs) = timeSaved (calculateMetrics cs d)"
  by (simp add: stats_def calculateMetrics_def Let_def)

text \<open>
  Claim C10. Toggling keeps the length and the order of the list; at every index, a cut
  whose id equals the given id has its status set to the target and its id, type, word,
  start, end and confidence unchanged, and a cut with another id is unchanged.
\<close>

theorem toggleCutStatus_frame:
  "length (toggleCutStatus i st cs) = length cs
   \<and> (\<forall>k < length cs.
        (id_cut (cs ! k) = i \<longrightarrow>
           status (toggleCutStatus i st cs ! k) = st
           \<and> id_cut (toggleCutStatus i st cs ! k) = id_cut (cs ! k)
           \<and> type_cut (toggleCutStatus i st cs ! k) = type_cut (cs ! k)
           \<and> word (toggleCutStatus i st cs ! k) = word (cs ! k)
           \<and> start (toggleCutStatus i st cs ! k) = start (cs ! k)
           \<and> end_cut (toggleCutStatus i st cs ! k) = end_cut (cs ! k)
           \<and> confidence (toggleCutStatus i st cs ! k) = confidence (cs ! k))
        \<and> (id_cut (cs ! k) \<noteq> i \<longrightarrow> toggleCutStatus i st cs ! k = cs ! k))"
  by (simp add: toggleCutStatus_def)

theorem toggleCutStatus_frame_witness:
  "length (toggleCutStatus ''cut-1'' rejected
       [mkCut ''cut-0'' 1 2 accepted, mkCut ''cut-1'' 3 5 accepted]) = 2
   \<and> id_cut ([mkCut ''cut-0'' 1 2 accepted, mkCut ''cut-1'' 3 5 accepted] ! 1) = ''cut-1''
   \<and> toggleCutStatus ''cut-1'' rejected
       [mkCut ''cut-0'' 1 2 accepted, mkCut ''cut-1'' 3 5 accepted] ! 1
       = mkCut ''cut-1'' 3 5 rejected
   \<and> id_cut ([mkCut ''cut-0'' 1 2 accepted, mkCut ''cut-1'' 3 5 accepted] ! 0) \<noteq> ''cut-1''
   \<and> toggleCutStatus ''cut-1'' rejected
       [mkCut ''cut-0'' 1 2 accepted, mkCut ''cut-1'' 3 5 accepted] ! 0
       = mkCut ''cut-0'' 1 2 accepted"
  using toggleCutStatus_frame [of "''cut-1''" rejected
     "[mkCut ''cut-0'' 1 2 accepted, mkCut ''cut-1'' 3 5 accepted]"]
  by (simp add: toggleCutStatus_def mkCut_def)

section \<open>The skip decision\<close>

lemma currentCut_Some_iff:
  "currentCut cs t = Some c \<longleftrightarrow>
     (\<exists>k<length cs. c = cs ! k \<and> status c = accepted \<and> start c \<le> t \<and> t < end_cut c
        \<and> (\<forall>j<k. \<not> (status (cs ! j) = accepted \<and> start (cs ! j) \<le> t
                      \<and> t < end_cut (cs ! j))))"
  unfolding currentCut_def inAcceptedCut_def find_Some_iff by auto

lemma currentCut_None_iff:
  "currentCut cs t = None \<longleftrightarrow>
     \<not> (\<exists>c \<in> set cs. status c = accepted \<and> start c \<le> t \<and> t < end_cut c)"
  unfolding currentCut_def inAcceptedCut_def find_None_iff by auto

text \<open>
  Claim C2. The skip evaluation finds a cut at time \<open>t\<close> exactly when some accepted
  cut \<open>c\<close> of the list has \<open>start c \<le> t < end c\<close>, and the cut it finds is such a cut;
  for a single accepted cut \<open>c\<close> it reports \<open>c\<close> iff \<open>start c \<le> t < end c\<close>, and at
  \<open>t = end c\<close> it reports nothing.
\<close>

theorem currentCut_half_open:
  "(currentCut cs t \<noteq> None
      \<longleftrightarrow> (\<exists>c \<in> set cs. status c = accepted \<and> start c \<le> t \<and> t < end_cut c))
   \<and> (currentCut cs t = Some c
      \<longrightarrow> c \<in> set cs \<and> status c = accepted \<and> start c \<le> t \<and> t < end_cut c)
   \<and> (status c = accepted
      \<longrightarrow> (currentCut [c] t = Some c \<longleftrightarrow> start c \<le> t \<and> t < end_cut c))
   \<and> currentCut [c] (end_cut c) = None"
proof (intro conjI)
  show "currentCut cs t \<noteq> None
      \<longleftrightarrow> (\<exists>c \<in> set cs. status c = accepted \<and> start c \<le> t \<and> t < end_cut c)"
    by (auto simp: currentCut_None_iff)
  show "currentCut cs t = Some c
      \<longrightarrow> c \<in> set cs \<and> status c = accepted \<and> start c \<le> t \<and> t < end_cut c"
    by (auto simp: currentCut_Some_iff)
  show "status c = accepted
      \<longrightarrow> (currentCut [c] t = Some c \<longleftrightarrow> start c \<le> t \<and> t < end_cut c)"
    by (simp add: currentCut_def inAcceptedCut_def)
  show "currentCut [c] (end_cut c) = None"
    by (simp add: currentCut_def inAcceptedCut_def)
qed

theorem currentCut_half_open_witness:
  "currentCut [mkCut ''a'' 5 8 accepted] 7 = Some (mkCut ''a'' 5 8 accepted)
   \<and> mkCut ''a'' 5 8 accepted \<in> set [mkCut ''a'' 5 8 accepted]
   \<and> status (mkCut ''a'' 5 8 accepted) = accepted
   \<and> start (mkCut ''a'' 5 8 accepted) \<le> 7 \<and> 7 < end_cut (mkCut ''a'' 5 8 accepted)
   \<and> currentCut [mkCut ''a'' 5 8 accepted] (end_cut (mkCut ''a'' 5 8 accepted)) = None"
  using currentCut_half_open [of "[mkCut ''a'' 5 8 accepted]" 7 "mkCut ''a'' 5 8 accepted"]
  by (simp add: mkCut_def)

text \<open>
  Claim C1, as the code has it. In a playing view with no preview bound, when the cut at
  index \<open>k\<close> is accepted and contains the video's time and no cut before it in the list
  is accepted and contains it, the jump target written to the video is the end of that
  cut, the first containing accepted cut in list order, and that cut becomes the active
  one. The end times of later containing cuts play no part.
\<close>

theorem checkTime_jumps_to_first_containing:
  assumes "\<not> isScrubbing s" and "videoRef s = Some v" and "\<not> paused v"
    and "previewEndTimeRef s = None"
    and "k < length (cuts s)"
    and "status (cuts s ! k) = accepted"
    and "start (cuts s ! k) \<le> video_currentTime v"
    and "video_currentTime v < end_cut (cuts s ! k)"
    and "\<forall>j<k. \<not> (status (cuts s ! j) = accepted \<and> start (cuts s ! j) \<le> video_currentTime v
                  \<and> video_currentTime v < end_cut (cuts s ! j))"
  shows "videoRef (checkTime s) = Some (v\<lparr>video_currentTime := end_cut (cuts s ! k)\<rparr>)
         \<and> activeCutId (checkTime s) = Some (id_cut (cuts s ! k))"
proof -
  have "currentCut (cuts s) (video_currentTime v) = Some (cuts s ! k)"
    unfolding currentCut_Some_iff using assms(5-9) by blast
  then show ?thesis
    using assms(1-4) by (simp add: checkTime_def Let_def)
qed

theorem checkTime_jumps_to_first_containing_witness:
  "videoRef (checkTime (playingAt
       [mkCut ''a'' 5 8 rejected, mkCut ''b'' 6 12 accepted, mkCut ''c'' 6.5 20 accepted] 100 7))
     = Some \<lparr>paused = False, video_currentTime = 12\<rparr>
   \<and> activeCutId (checkTime (playingAt
       [mkCut ''a'' 5 8 rejected, mkCut ''b'' 6 12 accepted, mkCut ''c'' 6.5 20 accepted] 100 7))
     = Some ''b''"
  using checkTime_jumps_to_first_containing
    [of "playingAt
       [mkCut ''a'' 5 8 rejected, mkCut ''b'' 6 12 accepted, mkCut ''c'' 6.5 20 accepted] 100 7"
       "\<lparr>paused = False, video_currentTime = 7\<rparr>" 1]
  by (simp add: playingAt_def mkCut_def)

text \<open>
  The spec's example for claim C1: with the accepted cuts \<open>[5,8)\<close> and \<open>[6,12)\<close>, in
  this order, and the video at 7, the jump target is 8 and not 12.
\<close>

theorem checkTime_overlap_counterexample:
  "videoRef (checkTime (playingAt [mkCut ''a'' 5 8 accepted, mkCut ''b'' 6 12 accepted] 100 7))
     = Some \<lparr>paused = False, video_currentTime = 8\<rparr>
   \<and> videoRef (checkTime (playingAt [mkCut ''a'' 5 8 accepted, mkCut ''b'' 6 12 accepted] 100 7))
     \<noteq> Some \<lparr>paused = False, video_currentTime = 12\<rparr>"
  by (simp add: checkTime_def playingAt_def mkCut_def currentCut_def inAcceptedCut_def)

section \<open>Convergence of the skip policy\<close>

lemma filter_length_mono:
  "(\<And>x. x \<in> set xs \<Longrightarrow> P x \<Longrightarrow> Q x) \<Longrightarrow> length (filter P xs) \<le> length (filter Q xs)"
  by (induction xs) auto

lemma filter_length_less:
  assumes "\<And>x. x \<in> set xs \<Longrightarrow> P x \<Longrightarrow> Q x" and "c \<in> set xs" and "Q c" and "\<not> P c"
  shows "length (filter P xs) < length (filter Q xs)"
  using assms
proof (induction xs)
  case Nil
  then show ?case by simp
next
  case (Cons x xs)
  have le: "length (filter P xs) \<le> length (filter Q xs)"
    by (rule filter_length_mono) (use Cons.prems(1) in auto)
  show ?case
  proof (cases "c \<in> set xs")
    case True
    then have "length (filter P xs) < length (filter Q xs)"
      using Cons by auto
    then show ?thesis using Cons.prems(1) by auto
  next
    case False
    then have "x = c" using Cons.prems(2) by simp
    then show ?thesis using Cons.prems le by auto
  qed
qed

lemma pending_le: "pending cs t \<le> length (filter (\<lambda>c. status c = accepted) cs)"
  unfolding pending_def by (induction cs) auto

text \<open>A jump leaves behind the cut it jumped out of, and brings back none.\<close>

lemma pending_jump:
  assumes "currentCut cs t = Some c"
  shows "pending cs (end_cut c) < pending cs t"
proof -
  from assms have c: "c \<in> set cs" "status c = accepted" "start c \<le> t" "t < end_cut c"
    by (auto simp: currentCut_Some_iff)
  show ?thesis unfolding pending_def
    by (rule filter_length_less [where c = c]) (use c in auto)
qed

text \<open>One frame of a playing view with no preview bound: what it keeps, what it writes.\<close>

lemma checkTime_playing:
  assumes "\<not> isScrubbing s" and "videoRef s = Some v" and "\<not> paused v"
    and "previewEndTimeRef s = None"
  shows "\<not> isScrubbing (checkTime s)" and "previewEndTimeRef (checkTime s) = None"
    and "cuts (checkTime s) = cuts s"
    and "videoRef (checkTime s)
          = Some (v\<lparr>video_currentTime :=
                     (case currentCut (cuts s) (video_currentTime v) of
                        None \<Rightarrow> video_currentTime v | Some c \<Rightarrow> end_cut c)\<rparr>)"
  using assms by (simp_all add: checkTime_def Let_def split: option.splits)

text \<open>Outside every accepted cut the loop never writes the video's time again.\<close>

lemma runLoop_stable:
  assumes "\<not> isScrubbing s" and "videoRef s = Some v" and "\<not> paused v"
    and "previewEndTimeRef s = None"
    and "currentCut (cuts s) (video_currentTime v) = None"
  shows "videoRef (runLoop m s) = Some v"
  using assms
proof (induction m arbitrary: s)
  case 0
  then show ?case by simp
next
  case (Suc m)
  note p = checkTime_playing [OF Suc.prems(1-4)]
  have v: "videoRef (checkTime s) = Some v"
    using p(4) Suc.prems(5) by simp
  have "videoRef (runLoop m (checkTime s)) = Some v"
    by (rule Suc.IH [OF p(1) v Suc.prems(3) p(2)]) (simp add: p(3) Suc.prems(5))
  then show ?case by simp
qed

lemma runLoop_converges_aux:
  assumes "pending (cuts s) (video_currentTime v) \<le> n"
    and "\<not> isScrubbing s" and "videoRef s = Some v" and "\<not> paused v"
    and "previewEndTimeRef s = None"
  shows "\<exists>k v'. k \<le> pending (cuts s) (video_currentTime v)
      \<and> videoRef (runLoop k s) = Some v'
      \<and> currentCut (cuts s) (video_currentTime v') = None
      \<and> (\<forall>j<k. \<exists>w. videoRef (runLoop j s) = Some w
                    \<and> currentCut (cuts s) (video_currentTime w) \<noteq> None)
      \<and> (\<forall>m\<ge>k. videoRef (runLoop m s) = Some v')"
  using assms
proof (induction n arbitrary: s v)
  case 0
  then have "currentCut (cuts s) (video_currentTime v) = None"
    by (auto simp: pending_def currentCut_None_iff filter_empty_conv)
  with 0 have "\<forall>m. videoRef (runLoop m s) = Some v"
    by (auto intro: runLoop_stable)
  with \<open>currentCut (cuts s) (video_currentTime v) = None\<close> "0.prems"(3) show ?case
    by (intro exI [of _ 0] exI [of _ v]) simp
next
  case (Suc n)
  show ?case
  proof (cases "currentCut (cuts s) (video_currentTime v)")
    case None
    with Suc.prems have "\<forall>m. videoRef (runLoop m s) = Some v"
      by (auto intro: runLoop_stable)
    with None Suc.prems(3) show ?thesis
      by (intro exI [of _ 0] exI [of _ v]) simp
  next
    case (Some c)
    let ?s = "checkTime s" and ?v = "v\<lparr>video_currentTime := end_cut c\<rparr>"
    note p = checkTime_playing [OF Suc.prems(2-5)]
    have v1: "videoRef ?s = Some ?v" using p(4) Some by simp
    have lt: "pending (cuts s) (end_cut c) < pending (cuts s) (video_currentTime v)"
      by (rule pending_jump [OF Some])
    with Suc.prems(1) have le: "pending (cuts ?s) (video_currentTime ?v) \<le> n"
      by (simp add: p(3))
    have np: "\<not> paused ?v" using Suc.prems(4) by simp
    from Suc.IH [OF le p(1) v1 np p(2)] obtain k v' where
      k: "k \<le> pending (cuts s) (end_cut c)"
      and r: "videoRef (runLoop k ?s) = Some v'"
      and f: "currentCut (cuts s) (video_currentTime v') = None"
      and b: "\<forall>j<k. \<exists>w. videoRef (runLoop j ?s) = Some w
                    \<and> currentCut (cuts s) (video_currentTime w) \<noteq> None"
      and a: "\<forall>m\<ge>k. videoRef (runLoop m ?s) = Some v'"
      by (auto simp: p(3))
    have b': "\<forall>j<Suc k. \<exists>w. videoRef (runLoop j s) = Some w
                    \<and> currentCut (cuts s) (video_currentTime w) \<noteq> None"
    proof (intro allI impI)
      fix j assume "j < Suc k"
      show "\<exists>w. videoRef (runLoop j s) = Some w
                    \<and> currentCut (cuts s) (video_currentTime w) \<noteq> None"
      proof (cases j)
        case 0
        then show ?thesis using Suc.prems(3) Some by simp
      next
        case (Suc j')
        with \<open>j < Suc k\<close> b show ?thesis by simp
      qed
    qed
    have a': "\<forall>m\<ge>Suc k. videoRef (runLoop m s) = Some v'"
    proof (intro allI impI)
      fix m assume "Suc k \<le> m"
      then obtain m' where "m = Suc m'" "k \<le> m'" by (cases m) auto
      with a show "videoRef (runLoop m s) = Some v'" by simp
    qed
    from k lt have "Suc k \<le> pending (cuts s) (video_currentTime v)" by simp
    with r f b' a' show ?thesis
      by (intro exI [of _ "Suc k"] exI [of _ v']) simp
  qed
qed

text \<open>
  Claim C7. Start the playback loop in a playing view (not scrubbing, no preview bound)
  at any position, with any cut list, adjacent and overlapping accepted cuts included, and
  let the position move by the jumps of \<open>checkTime\<close> alone. Then there is a number
  \<open>k\<close> of frames, at most the number of accepted cuts, such that each of the first \<open>k\<close>
  frames finds the position inside an accepted cut and jumps, after them the position
  is contained in no accepted cut, and it stays where it is in every later frame.
\<close>

theorem runLoop_converges:
  assumes "\<not> isScrubbing s" and "videoRef s = Some v" and "\<not> paused v"
    and "previewEndTimeRef s = None"
  shows "\<exists>k v'. k \<le> length (filter (\<lambda>c. status c = accepted) (cuts s))
      \<and> videoRef (runLoop k s) = Some v'
      \<and> currentCut (cuts s) (video_currentTime v') = None
      \<and> (\<forall>j<k. \<exists>w. videoRef (runLoop j s) = Some w
                    \<and> currentCut (cuts s) (video_currentTime w) \<noteq> None)
      \<and> (\<forall>m\<ge>k. videoRef (runLoop m s) = Some v')"
proof -
  from runLoop_converges_aux [OF order_refl assms] obtain k v' where
    "k \<le> pending (cuts s) (video_currentTime v)"
    and r: "videoRef (runLoop k s) = Some v'
      \<and> currentCut (cuts s) (video_currentTime v') = None
      \<and> (\<forall>j<k. \<exists>w. videoRef (runLoop j s) = Some w
                    \<and> currentCut (cuts s) (video_currentTime w) \<noteq> None)
      \<and> (\<forall>m\<ge>k. videoRef (runLoop m s) = Some v')"
    by blast
  then have "k \<le> length (filter (\<lambda>c. status c = accepted) (cuts s))"
    using pending_le [of "cuts s" "video_currentTime v"] by simp
  with r show ?thesis by blast
qed

theorem runLoop_converges_witness:
  "videoRef (runLoop 3 (playingAt
       [mkCut ''a'' 5 8 accepted, mkCut ''b'' 8 12 accepted, mkCut ''c'' 0 6 accepted] 100 1))
     = Some \<lparr>paused = False, video_currentTime = 12\<rparr>
   \<and> currentCut [mkCut ''a'' 5 8 accepted, mkCut ''b'' 8 12 accepted, mkCut ''c'' 0 6 accepted] 12
     = None
   \<and> videoRef (runLoop 2 (playingAt
       [mkCut ''a'' 5 8 accepted, mkCut ''b'' 8 12 accepted, mkCut ''c'' 0 6 accepted] 100 1))
     = Some \<lparr>paused = False, video_currentTime = 8\<rparr>
   \<and> videoRef (runLoop 4 (playingAt
       [mkCut ''a'' 5 8 accepted, mkCut ''b'' 8 12 accepted, mkCut ''c'' 0 6 accepted] 100 1))
     = Some \<lparr>paused = False, video_currentTime = 12\<rparr>"
proof -
  let ?cs = "[mkCut ''a'' 5 8 accepted, mkCut ''b'' 8 12 accepted, mkCut ''c'' 0 6 accepted]"
  let ?s = "playingAt ?cs 100 1"
  have h: "\<not> isScrubbing ?s" "videoRef ?s = Some \<lparr>paused = False, video_currentTime = 1\<rparr>"
    "\<not> paused \<lparr>paused = False, video_currentTime = 1\<rparr>" "previewEndTimeRef ?s = None"
    by (simp_all add: playingAt_def)
  have c1: "checkTime ?s = (playingAt ?cs 100 6)\<lparr>currentTime := Num 1, activeCutId := Some ''c''\<rparr>"
    by (simp add: checkTime_def playingAt_def mkCut_def currentCut_def inAcceptedCut_def)
  have c2: "checkTime ((playingAt ?cs 100 6)\<lparr>currentTime := Num 1, activeCutId := Some ''c''\<rparr>)
      = (playingAt ?cs 100 8)\<lparr>currentTime := Num 6, activeCutId := Some ''a''\<rparr>"
    by (simp add: checkTime_def playingAt_def mkCut_def currentCut_def inAcceptedCut_def)
  have c3: "checkTime ((playingAt ?cs 100 8)\<lparr>currentTime := Num 6, activeCutId := Some ''a''\<rparr>)
      = (playingAt ?cs 100 12)\<lparr>currentTime := Num 8, activeCutId := Some ''b''\<rparr>"
    by (simp add: checkTime_def playingAt_def mkCut_def currentCut_def inAcceptedCut_def)
  have c4: "checkTime ((playingAt ?cs 100 12)\<lparr>currentTime := Num 8, activeCutId := Some ''b''\<rparr>)
      = (playingAt ?cs 100 12)\<lparr>currentTime := Num 12, activeCutId := None\<rparr>"
    by (simp add: checkTime_def playingAt_def mkCut_def currentCut_def inAcceptedCut_def)
  have r2: "videoRef (runLoop 2 ?s) = Some \<lparr>paused = False, video_currentTime = 8\<rparr>"
    by (simp add: numeral_2_eq_2 c1 c2) (simp add: playingAt_def)
  have r3: "videoRef (runLoop 3 ?s) = Some \<lparr>paused = False, video_currentTime = 12\<rparr>"
    by (simp add: numeral_3_eq_3 c1 c2 c3) (simp add: playingAt_def)
  have r4: "videoRef (runLoop 4 ?s) = Some \<lparr>paused = False, video_currentTime = 12\<rparr>"
    by (simp add: eval_nat_numeral c1 c2 c3 c4) (simp add: playingAt_def)
  have f: "currentCut ?cs 12 = None"
    by (simp add: mkCut_def currentCut_def inAcceptedCut_def)
  from runLoop_converges [OF h] obtain k v' where
    "k \<le> length (filter (\<lambda>c. status c = accepted) (cuts ?s))"
    and "videoRef (runLoop k ?s) = Some v'"
    by blast
  with r2 r3 r4 f show ?thesis by blast
qed

section \<open>Position assignments\<close>

text \<open>The rounding function \<open>fixed3\<close> meets what is asked of a rounding function.\<close>

lemma fixed3_monotone: "monotoneRounding fixed3"
  unfolding monotoneRounding_def fixed3_def
  by (auto intro!: divide_right_mono round_mono)

lemma fixed3_error: "errorWithin 0 (1 / 2000) fixed3 x"
proof -
  have "\<bar>of_int (round (x * 1000)) - x * 1000\<bar> \<le> 1 / 2"
    by (rule of_int_round_abs_le)
  then have "\<bar>of_int (round (x * 1000)) / 1000 - x\<bar> \<le> 1 / 2000"
    by (simp add: abs_if field_simps split: if_splits)
  then show ?thesis by (simp add: errorWithin_def fixed3_def)
qed

lemma fixed3_grid: "fixed3 (of_int k / 1000) = of_int k / 1000"
  by (simp add: fixed3_def)

lemma handleScrubMove_mounted:
  assumes "timelineRef s = Some r" and "videoRef s = Some v" and "0 < duration s"
    and "rect_width r \<noteq> 0"
    and "T = rnd (rnd (max 0 (min (rnd (x - rect_left r)) (rect_width r)) / rect_width r)
                  * duration s)"
  shows "handleScrubMove rnd s x
      = Inr (s\<lparr>currentTime := Num T, videoRef := Some (v\<lparr>video_currentTime := T\<rparr>),
               activeCutId := map_option id_cut
                  (find (\<lambda>c. T \<ge> start c \<and> T < end_cut c) (cuts s))\<rparr>)"
  using assms by (simp add: handleScrubMove_def js_div_def Let_def)

lemma handleScrubMove_zero_width:
  assumes "timelineRef s = Some r" and "videoRef s = Some v" and "0 < duration s"
    and "rect_width r = 0"
  shows "handleScrubMove rnd s x = Inl (TypeError, s\<lparr>currentTime := NaN\<rparr>)"
  using assms by (simp add: handleScrubMove_def js_div_def Let_def)

text \<open>The time a scrub writes lies in the media, when rounding is monotone.\<close>

lemma scrub_time_range:
  fixes w d x :: real
  assumes m: "monotoneRounding rnd" and dd: "rnd d = d" and d: "0 < d" and w: "w \<noteq> 0"
  shows "0 \<le> rnd (rnd (max 0 (min x w) / w) * d) \<and> rnd (rnd (max 0 (min x w) / w) * d) \<le> d"
proof -
  from m have mono: "\<And>a b. a \<le> b \<Longrightarrow> rnd a \<le> rnd b" and r0: "rnd 0 = 0" and r1: "rnd 1 = 1"
    by (auto simp: monotoneRounding_def)
  have q: "0 \<le> max 0 (min x w) / w \<and> max 0 (min x w) / w \<le> 1"
  proof (cases "0 < w")
    case True
    have "0 \<le> max 0 (min x w)" by simp
    moreover have "max 0 (min x w) \<le> w" using True by simp
    ultimately show ?thesis using True by (simp add: divide_le_eq)
  next
    case False
    with w have "w < 0" by simp
    then have "max 0 (min x w) = 0" by simp
    then show ?thesis by simp
  qed
  have p0: "0 \<le> rnd (max 0 (min x w) / w)" using mono [of 0 "max 0 (min x w) / w"] q r0 by simp
  have p1: "rnd (max 0 (min x w) / w) \<le> 1" using mono [of "max 0 (min x w) / w" 1] q r1 by simp
  have a: "0 \<le> rnd (max 0 (min x w) / w) * d"
    by (rule mult_nonneg_nonneg) (use p0 d in auto)
  have "rnd (max 0 (min x w) / w) * d \<le> 1 * d"
    by (rule mult_right_mono) (use p1 d in auto)
  then have b: "rnd (max 0 (min x w) / w) * d \<le> d" by simp
  show ?thesis using mono [OF a] mono [OF b] r0 dd by simp
qed

text \<open>
  Claim C3, as the code has it. The relative skip command writes a time in
  \<open>[0, duration]\<close>, for a duration that is not negative. The scrub command, with a
  positive duration and a timeline whose width is not 0, writes a time in
  \<open>[0, duration]\<close> to the position and to the video, when rounding is monotone and
  leaves 0, 1 and the duration unchanged; on a timeline of width 0 it sets the position
  to \<open>NaN\<close> and throws. The forced jump of the playback loop writes the end of the
  accepted cut as it is stored, with no clamping, and a preview writes
  \<open>max 0 (start - 1)\<close>, which is bounded below only.
\<close>

theorem position_assignments:
  "(0 \<le> duration s \<longrightarrow> videoRef s = Some v \<longrightarrow>
      (\<exists>t. 0 \<le> t \<and> t \<le> duration s \<and> currentTime (skip s sec) = Num t
           \<and> videoRef (skip s sec) = Some (v\<lparr>video_currentTime := t\<rparr>)))
   \<and> (monotoneRounding rnd \<longrightarrow> rnd (duration s) = duration s \<longrightarrow> 0 < duration s \<longrightarrow>
      timelineRef s = Some r \<longrightarrow> rect_width r \<noteq> 0 \<longrightarrow> videoRef s = Some v \<longrightarrow>
      (\<exists>t s'. handleScrubMove rnd s x = Inr s' \<and> 0 \<le> t \<and> t \<le> duration s
           \<and> currentTime s' = Num t
           \<and> videoRef s' = Some (v\<lparr>video_currentTime := t\<rparr>)))
   \<and> (0 < duration s \<longrightarrow> timelineRef s = Some r \<longrightarrow> rect_width r = 0 \<longrightarrow>
      videoRef s = Some v \<longrightarrow>
      handleScrubMove rnd s x = Inl (TypeError, s\<lparr>currentTime := NaN\<rparr>))
   \<and> (\<not> isScrubbing s \<longrightarrow> videoRef s = Some v \<longrightarrow> \<not> paused v \<longrightarrow>
      previewEndTimeRef s = None \<longrightarrow> currentCut (cuts s) (video_currentTime v) = Some c \<longrightarrow>
      videoRef (checkTime s) = Some (v\<lparr>video_currentTime := end_cut c\<rparr>))
   \<and> (videoRef s = Some v \<longrightarrow>
      (\<exists>v'. videoRef (previewCut ok s c) = Some v'
            \<and> video_currentTime v' = max 0 (start c - 1) \<and> 0 \<le> video_currentTime v'))"
proof (intro conjI impI)
  assume "0 \<le> duration s" "videoRef s = Some v"
  then show "\<exists>t. 0 \<le> t \<and> t \<le> duration s \<and> currentTime (skip s sec) = Num t
           \<and> videoRef (skip s sec) = Some (v\<lparr>video_currentTime := t\<rparr>)"
    by (simp add: skip_def Let_def)
next
  assume m: "monotoneRounding rnd" and dd: "rnd (duration s) = duration s"
    and d: "0 < duration s" and r: "timelineRef s = Some r" and w: "rect_width r \<noteq> 0"
    and v: "videoRef s = Some v"
  let ?t = "rnd (rnd (max 0 (min (rnd (x - rect_left r)) (rect_width r)) / rect_width r)
                 * duration s)"
  have e: "handleScrubMove rnd s x
      = Inr (s\<lparr>currentTime := Num ?t, videoRef := Some (v\<lparr>video_currentTime := ?t\<rparr>),
               activeCutId := map_option id_cut
                  (find (\<lambda>c. ?t \<ge> start c \<and> ?t < end_cut c) (cuts s))\<rparr>)"
    by (rule handleScrubMove_mounted [OF r v d w refl])
  have "0 \<le> ?t \<and> ?t \<le> duration s" by (rule scrub_time_range [OF m dd d w])
  then show "\<exists>t s'. handleScrubMove rnd s x = Inr s' \<and> 0 \<le> t \<and> t \<le> duration s
           \<and> currentTime s' = Num t
           \<and> videoRef s' = Some (v\<lparr>video_currentTime := t\<rparr>)"
    unfolding e by (intro exI [of _ ?t]) simp
next
  assume "0 < duration s" "timelineRef s = Some r" "rect_width r = 0" "videoRef s = Some v"
  then show "handleScrubMove rnd s x = Inl (TypeError, s\<lparr>currentTime := NaN\<rparr>)"
    by (simp add: handleScrubMove_zero_width)
next
  assume "\<not> isScrubbing s" "videoRef s = Some v" "\<not> paused v" "previewEndTimeRef s = None"
    "currentCut (cuts s) (video_currentTime v) = Some c"
  then show "videoRef (checkTime s) = Some (v\<lparr>video_currentTime := end_cut c\<rparr>)"
    by (simp add: checkTime_def Let_def)
next
  assume "videoRef s = Some v"
  then show "\<exists>v'. videoRef (previewCut ok s c) = Some v'
            \<and> video_currentTime v' = max 0 (start c - 1) \<and> 0 \<le> video_currentTime v'"
    by (simp add: previewCut_def Let_def)
qed

theorem position_assignments_witness:
  "videoRef (skip (playingAt [] 100 95) 10) = Some \<lparr>paused = False, video_currentTime = 100\<rparr>
   \<and> handleScrubMove fixed3 (pausedAt [] 100 0) 200
       = Inr ((pausedAt [] 100 0)\<lparr>currentTime := Num 25,
                videoRef := Some \<lparr>paused = True, video_currentTime = 25\<rparr>\<rparr>)
   \<and> handleScrubMove fixed3
        ((pausedAt [] 100 0)\<lparr>timelineRef := Some \<lparr>rect_left = 0, rect_width = 0\<rparr>\<rparr>) 200
       = Inl (TypeError,
           (pausedAt [] 100 0)\<lparr>timelineRef := Some \<lparr>rect_left = 0, rect_width = 0\<rparr>,
                                 currentTime := NaN\<rparr>)
   \<and> videoRef (checkTime (playingAt [mkCut ''a'' 5 8 accepted] 100 7))
       = Some \<lparr>paused = False, video_currentTime = 8\<rparr>
   \<and> videoRef (previewCut True (pausedAt [] 100 0) (mkCut ''a'' 10 12 accepted))
       = Some \<lparr>paused = False, video_currentTime = 9\<rparr>"
proof (intro conjI)
  have d: "0 \<le> duration (playingAt [] 100 95)"
    and v: "videoRef (playingAt [] 100 95) = Some \<lparr>paused = False, video_currentTime = 95\<rparr>"
    by (simp_all add: playingAt_def)
  have k: "videoRef (skip (playingAt [] 100 95) 10)
      = Some \<lparr>paused = False, video_currentTime = 100\<rparr>"
    by (simp add: skip_def playingAt_def)
  from position_assignments
    [of "playingAt [] 100 95" "\<lparr>paused = False, video_currentTime = 95\<rparr>" 10] d v
  obtain t where "t \<le> duration (playingAt [] 100 95)"
    and "videoRef (skip (playingAt [] 100 95) 10)
         = Some (\<lparr>paused = False, video_currentTime = 95\<rparr>\<lparr>video_currentTime := t\<rparr>)"
    by blast
  with k show "videoRef (skip (playingAt [] 100 95) 10)
      = Some \<lparr>paused = False, video_currentTime = 100\<rparr>"
    by blast
next
  have g: "fixed3 200 = 200" "fixed3 (1 / 4) = 1 / 4" "fixed3 25 = 25" "fixed3 100 = 100"
    using fixed3_grid [of 200000] fixed3_grid [of 250] fixed3_grid [of 25000]
      fixed3_grid [of 100000]
    by simp_all
  have m: "handleScrubMove fixed3 (pausedAt [] 100 0) 200
       = Inr ((pausedAt [] 100 0)\<lparr>currentTime := Num 25,
                videoRef := Some \<lparr>paused = True, video_currentTime = 25\<rparr>\<rparr>)"
    by (simp add: handleScrubMove_def js_div_def pausedAt_def g)
  have h: "fixed3 (duration (pausedAt [] 100 0)) = duration (pausedAt [] 100 0)"
    "0 < duration (pausedAt [] 100 0)"
    "timelineRef (pausedAt [] 100 0) = Some \<lparr>rect_left = 0, rect_width = 800\<rparr>"
    "rect_width \<lparr>rect_left = 0, rect_width = 800\<rparr> \<noteq> 0"
    "videoRef (pausedAt [] 100 0) = Some \<lparr>paused = True, video_currentTime = 0\<rparr>"
    by (simp_all add: pausedAt_def g)
  from position_assignments
    [of "pausedAt [] 100 0" "\<lparr>paused = True, video_currentTime = 0\<rparr>" _ fixed3
        "\<lparr>rect_left = 0, rect_width = 800\<rparr>" 200] fixed3_monotone h
  obtain t s' where "handleScrubMove fixed3 (pausedAt [] 100 0) 200 = Inr s'"
    and "0 \<le> t" and "t \<le> duration (pausedAt [] 100 0)" and "currentTime s' = Num t"
    by blast
  with m show "handleScrubMove fixed3 (pausedAt [] 100 0) 200
       = Inr ((pausedAt [] 100 0)\<lparr>currentTime := Num 25,
                videoRef := Some \<lparr>paused = True, video_currentTime = 25\<rparr>\<rparr>)"
    by blast
next
  let ?s = "(pausedAt [] 100 0)\<lparr>timelineRef := Some \<lparr>rect_left = 0, rect_width = 0\<rparr>\<rparr>"
  have h: "0 < duration ?s" "timelineRef ?s = Some \<lparr>rect_left = 0, rect_width = 0\<rparr>"
    "rect_width \<lparr>rect_left = 0, rect_width = 0\<rparr> = 0"
    "videoRef ?s = Some \<lparr>paused = True, video_currentTime = 0\<rparr>"
    by (simp_all add: pausedAt_def)
  from position_assignments
    [of ?s "\<lparr>paused = True, video_currentTime = 0\<rparr>" _ fixed3
        "\<lparr>rect_left = 0, rect_width = 0\<rparr>" 200] h
  have "handleScrubMove fixed3 ?s 200 = Inl (TypeError, ?s\<lparr>currentTime := NaN\<rparr>)"
    by blast
  then show "handleScrubMove fixed3 ?s 200
       = Inl (TypeError,
           (pausedAt [] 100 0)\<lparr>timelineRef := Some \<lparr>rect_left = 0, rect_width = 0\<rparr>,
                                 currentTime := NaN\<rparr>)"
    by simp
next
  have h: "\<not> isScrubbing (playingAt [mkCut ''a'' 5 8 accepted] 100 7)"
    "videoRef (playingAt [mkCut ''a'' 5 8 accepted] 100 7)
       = Some \<lparr>paused = False, video_currentTime = 7\<rparr>"
    "\<not> paused \<lparr>paused = False, video_currentTime = 7\<rparr>"
    "previewEndTimeRef (playingAt [mkCut ''a'' 5 8 accepted] 100 7) = None"
    "currentCut (cuts (playingAt [mkCut ''a'' 5 8 accepted] 100 7))
        (video_currentTime \<lparr>paused = False, video_currentTime = 7\<rparr>)
       = Some (mkCut ''a'' 5 8 accepted)"
    by (simp_all add: playingAt_def mkCut_def currentCut_def inAcceptedCut_def)
  from position_assignments
    [of "playingAt [mkCut ''a'' 5 8 accepted] 100 7" "\<lparr>paused = False, video_currentTime = 7\<rparr>"
        _ _ _ _ "mkCut ''a'' 5 8 accepted"] h
  have "videoRef (checkTime (playingAt [mkCut ''a'' 5 8 accepted] 100 7))
      = Some (\<lparr>paused = False, video_currentTime = 7\<rparr>
                \<lparr>video_currentTime := end_cut (mkCut ''a'' 5 8 accepted)\<rparr>)"
    by blast
  then show "videoRef (checkTime (playingAt [mkCut ''a'' 5 8 accepted] 100 7))
       = Some \<lparr>paused = False, video_currentTime = 8\<rparr>"
    by (simp add: mkCut_def)
next
  have v: "videoRef (pausedAt [] 100 0) = Some \<lparr>paused = True, video_currentTime = 0\<rparr>"
    by (simp add: pausedAt_def)
  have k: "videoRef (previewCut True (pausedAt [] 100 0) (mkCut ''a'' 10 12 accepted))
       = Some \<lparr>paused = False, video_currentTime = 9\<rparr>"
    by (simp add: previewCut_def pausedAt_def mkCut_def)
  from position_assignments
    [of "pausedAt [] 100 0" "\<lparr>paused = True, video_currentTime = 0\<rparr>" _ _ _ _
        "mkCut ''a'' 10 12 accepted" True] v
  obtain v' where "videoRef (previewCut True (pausedAt [] 100 0) (mkCut ''a'' 10 12 accepted))
      = Some v'"
    by blast
  with k show "videoRef (previewCut True (pausedAt [] 100 0) (mkCut ''a'' 10 12 accepted))
       = Some \<lparr>paused = False, video_currentTime = 9\<rparr>"
    by blast
qed

text \<open>
  An accepted cut that ends after the video does: the jump writes 200 for a duration
  of 100.
\<close>

theorem checkTime_unclamped_counterexample:
  "duration (playingAt [mkCut ''a'' 5 200 accepted] 100 7) = 100
   \<and> videoRef (checkTime (playingAt [mkCut ''a'' 5 200 accepted] 100 7))
       = Some \<lparr>paused = False, video_currentTime = 200\<rparr>
   \<and> \<not> (200 \<le> duration (playingAt [mkCut ''a'' 5 200 accepted] 100 7))"
  by (simp add: checkTime_def playingAt_def mkCut_def currentCut_def inAcceptedCut_def)

section \<open>Commands before the duration is known\<close>

text \<open>
  Claim C4, as the code has it. While the duration is not positive (0 until the metadata
  has loaded), the scrub-move handler changes nothing. The scrub-start handler then
  writes neither the position nor the video's time, but it is no no-op: with the
  timeline and the video mounted it enters scrubbing, clears the preview bound, records
  whether the video was playing and pauses it; with either of them not mounted it
  changes nothing. A preview is not refused on account of the duration or of the cut's
  start: without a mounted video it only marks the cut active, and with one it sets the
  preview bound \<open>min duration (end + 1)\<close>, writes \<open>max 0 (start - 1)\<close> to the video and
  requests playback, which starts when the request succeeds.
\<close>

theorem unknown_duration_commands:
  "(\<not> duration s > 0 \<longrightarrow> handleScrubMove rnd s x = Inr s)
   \<and> (\<not> duration s > 0 \<longrightarrow> timelineRef s = Some r \<longrightarrow> videoRef s = Some v \<longrightarrow>
        handleScrubStart rnd s x
          = Inr (s\<lparr>isScrubbing := True, previewEndTimeRef := None,
                   wasPlayingRef := \<not> paused v,
                   videoRef := Some (v\<lparr>paused := True\<rparr>),
                   isPlaying := (isPlaying s \<and> paused v)\<rparr>))
   \<and> (timelineRef s = None \<or> videoRef s = None \<longrightarrow> handleScrubStart rnd s x = Inr s)
   \<and> (videoRef s = None \<longrightarrow> previewCut ok s c = s\<lparr>activeCutId := Some (id_cut c)\<rparr>)
   \<and> (videoRef s = Some v \<longrightarrow>
        previewEndTimeRef (previewCut ok s c) = Some (min (duration s) (end_cut c + 1))
        \<and> videoRef (previewCut ok s c)
            = Some \<lparr>paused = (if ok then False else paused v),
                    video_currentTime = max 0 (start c - 1)\<rparr>
        \<and> isPlaying (previewCut ok s c) = (if ok then True else isPlaying s))"
proof (intro conjI impI)
  assume "\<not> duration s > 0"
  then show "handleScrubMove rnd s x = Inr s"
    by (simp add: handleScrubMove_def split: option.splits)
next
  assume d: "\<not> duration s > 0" and r: "timelineRef s = Some r" and v: "videoRef s = Some v"
  show "handleScrubStart rnd s x
          = Inr (s\<lparr>isScrubbing := True, previewEndTimeRef := None,
                   wasPlayingRef := \<not> paused v,
                   videoRef := Some (v\<lparr>paused := True\<rparr>),
                   isPlaying := (isPlaying s \<and> paused v)\<rparr>)"
  proof (cases "paused v")
    case True
    then have "v\<lparr>paused := True\<rparr> = v" by simp
    with True d r v show ?thesis
      by (cases s) (simp add: handleScrubStart_def handleScrubMove_def Let_def)
  next
    case False
    with d r v show ?thesis
      by (simp add: handleScrubStart_def handleScrubMove_def Let_def)
  qed
next
  assume "timelineRef s = None \<or> videoRef s = None"
  then show "handleScrubStart rnd s x = Inr s"
    by (auto simp: handleScrubStart_def split: option.splits)
next
  assume "videoRef s = None"
  then show "previewCut ok s c = s\<lparr>activeCutId := Some (id_cut c)\<rparr>"
    by (simp add: previewCut_def)
next
  assume "videoRef s = Some v"
  then show "previewEndTimeRef (previewCut ok s c) = Some (min (duration s) (end_cut c + 1))"
    by (simp add: previewCut_def Let_def)
next
  assume "videoRef s = Some v"
  then show "videoRef (previewCut ok s c)
            = Some \<lparr>paused = (if ok then False else paused v),
                    video_currentTime = max 0 (start c - 1)\<rparr>"
    by (cases v) (simp add: previewCut_def Let_def)
next
  assume "videoRef s = Some v"
  then show "isPlaying (previewCut ok s c) = (if ok then True else isPlaying s)"
    by (simp add: previewCut_def Let_def)
qed

theorem unknown_duration_commands_witness:
  "handleScrubMove fixed3 (pausedAt [] 0 0) 200 = Inr (pausedAt [] 0 0)
   \<and> handleScrubStart fixed3 ((playingAt [] 0 0)\<lparr>previewEndTimeRef := Some 5\<rparr>) 200
       = Inr ((pausedAt [] 0 0)\<lparr>isScrubbing := True, wasPlayingRef := True\<rparr>)
   \<and> handleScrubStart fixed3 ((pausedAt [] 0 0)\<lparr>timelineRef := None\<rparr>) 200
       = Inr ((pausedAt [] 0 0)\<lparr>timelineRef := None\<rparr>)
   \<and> previewCut True ((pausedAt [] 0 0)\<lparr>videoRef := None\<rparr>) (mkCut ''a'' 5 8 accepted)
       = (pausedAt [] 0 0)\<lparr>videoRef := None, activeCutId := Some ''a''\<rparr>
   \<and> previewEndTimeRef (previewCut True (pausedAt [] 3 0) (mkCut ''a'' 5 8 accepted)) = Some 3
   \<and> videoRef (previewCut True (pausedAt [] 3 0) (mkCut ''a'' 5 8 accepted))
       = Some \<lparr>paused = False, video_currentTime = 4\<rparr>"
proof (intro conjI)
  have d: "\<not> duration (pausedAt [] 0 0) > 0" by (simp add: pausedAt_def)
  from unknown_duration_commands [of "pausedAt [] 0 0" fixed3 200] d
  show "handleScrubMove fixed3 (pausedAt [] 0 0) 200 = Inr (pausedAt [] 0 0)" by blast
next
  let ?s = "(playingAt [] 0 0)\<lparr>previewEndTimeRef := Some 5\<rparr>"
  have h: "\<not> duration ?s > 0" "timelineRef ?s = Some \<lparr>rect_left = 0, rect_width = 800\<rparr>"
    "videoRef ?s = Some \<lparr>paused = False, video_currentTime = 0\<rparr>"
    by (simp_all add: playingAt_def)
  from unknown_duration_commands
    [of ?s fixed3 200 "\<lparr>rect_left = 0, rect_width = 800\<rparr>"
        "\<lparr>paused = False, video_currentTime = 0\<rparr>"] h
  have "handleScrubStart fixed3 ?s 200
      = Inr (?s\<lparr>isScrubbing := True, previewEndTimeRef := None,
               wasPlayingRef := \<not> paused \<lparr>paused = False, video_currentTime = 0\<rparr>,
               videoRef := Some (\<lparr>paused = False, video_currentTime = 0\<rparr>\<lparr>paused := True\<rparr>),
               isPlaying := (isPlaying ?s \<and> paused \<lparr>paused = False, video_currentTime = 0\<rparr>)\<rparr>)"
    by blast
  then show "handleScrubStart fixed3 ?s 200
       = Inr ((pausedAt [] 0 0)\<lparr>isScrubbing := True, wasPlayingRef := True\<rparr>)"
    by (simp add: playingAt_def pausedAt_def)
next
  have n: "timelineRef ((pausedAt [] 0 0)\<lparr>timelineRef := None\<rparr>) = None
      \<or> videoRef ((pausedAt [] 0 0)\<lparr>timelineRef := None\<rparr>) = None" by simp
  from unknown_duration_commands [of "(pausedAt [] 0 0)\<lparr>timelineRef := None\<rparr>" fixed3 200] n
  show "handleScrubStart fixed3 ((pausedAt [] 0 0)\<lparr>timelineRef := None\<rparr>) 200
       = Inr ((pausedAt [] 0 0)\<lparr>timelineRef := None\<rparr>)"
    by blast
next
  have n: "videoRef ((pausedAt [] 0 0)\<lparr>videoRef := None\<rparr>) = None" by simp
  from unknown_duration_commands
    [of "(pausedAt [] 0 0)\<lparr>videoRef := None\<rparr>" _ _ _ _ True "mkCut ''a'' 5 8 accepted"] n
  have "previewCut True ((pausedAt [] 0 0)\<lparr>videoRef := None\<rparr>) (mkCut ''a'' 5 8 accepted)
      = (pausedAt [] 0 0)\<lparr>videoRef := None,
           activeCutId := Some (id_cut (mkCut ''a'' 5 8 accepted))\<rparr>"
    by simp
  then show "previewCut True ((pausedAt [] 0 0)\<lparr>videoRef := None\<rparr>) (mkCut ''a'' 5 8 accepted)
       = (pausedAt [] 0 0)\<lparr>videoRef := None, activeCutId := Some ''a''\<rparr>"
    by (simp add: mkCut_def)
next
  have v: "videoRef (pausedAt [] 3 0) = Some \<lparr>paused = True, video_currentTime = 0\<rparr>"
    by (simp add: pausedAt_def)
  from unknown_duration_commands
    [of "pausedAt [] 3 0" _ _ _ "\<lparr>paused = True, video_currentTime = 0\<rparr>" True
        "mkCut ''a'' 5 8 accepted"] v
  have e: "previewEndTimeRef (previewCut True (pausedAt [] 3 0) (mkCut ''a'' 5 8 accepted))
        = Some (min (duration (pausedAt [] 3 0)) (end_cut (mkCut ''a'' 5 8 accepted) + 1))"
    and p: "videoRef (previewCut True (pausedAt [] 3 0) (mkCut ''a'' 5 8 accepted))
        = Some \<lparr>paused = (if True then False else paused \<lparr>paused = True, video_currentTime = 0\<rparr>),
                video_currentTime = max 0 (start (mkCut ''a'' 5 8 accepted) - 1)\<rparr>"
    by blast+
  from e show "previewEndTimeRef (previewCut True (pausedAt [] 3 0) (mkCut ''a'' 5 8 accepted))
      = Some 3"
    by (simp add: pausedAt_def mkCut_def)
  from p show "videoRef (previewCut True (pausedAt [] 3 0) (mkCut ''a'' 5 8 accepted))
       = Some \<lparr>paused = False, video_currentTime = 4\<rparr>"
    by (simp add: mkCut_def)
qed

text \<open>
  With the duration still 0, a preview of the cut \<open>[5,8)\<close> seeks the video to 4 and
  starts playback; with a duration of 3, less than the cut's start, it does the same.
\<close>

theorem preview_not_rejected_counterexample:
  "duration (pausedAt [mkCut ''a'' 5 8 accepted] 0 0) = 0
   \<and> previewCut True (pausedAt [mkCut ''a'' 5 8 accepted] 0 0) (mkCut ''a'' 5 8 accepted)
       \<noteq> pausedAt [mkCut ''a'' 5 8 accepted] 0 0
   \<and> videoRef (previewCut True (pausedAt [mkCut ''a'' 5 8 accepted] 0 0) (mkCut ''a'' 5 8 accepted))
       = Some \<lparr>paused = False, video_currentTime = 4\<rparr>
   \<and> start (mkCut ''a'' 5 8 accepted) > duration (pausedAt [mkCut ''a'' 5 8 accepted] 3 0)
   \<and> videoRef (previewCut True (pausedAt [mkCut ''a'' 5 8 accepted] 3 0) (mkCut ''a'' 5 8 accepted))
       = Some \<lparr>paused = False, video_currentTime = 4\<rparr>"
  by (simp add: previewCut_def pausedAt_def mkCut_def)

section \<open>Bounded preview\<close>

text \<open>
  Claim C5. With the video mounted, a preview command for a cut \<open>c\<close> sets the preview
  bound to \<open>min duration (end c + 1)\<close> and the video's position to \<open>max 0 (start c - 1)\<close>.
  A run of the playback loop on a playing video whose position has reached the bound
  pauses the video and clears the bound; one below the bound leaves the video and the
  bound as they are. As long as the bound is set, no run of the loop writes the video's
  position, whatever the cuts and the position.
\<close>

theorem preview_bounding:
  "(videoRef s = Some v \<longrightarrow>
      previewEndTimeRef (previewCut ok s c) = Some (min (duration s) (end_cut c + 1))
      \<and> map_option video_currentTime (videoRef (previewCut ok s c)) = Some (max 0 (start c - 1)))
   \<and> (\<not> isScrubbing s \<longrightarrow> videoRef s = Some v \<longrightarrow> \<not> paused v \<longrightarrow>
      previewEndTimeRef s = Some b \<longrightarrow> b \<le> video_currentTime v \<longrightarrow>
      videoRef (checkTime s) = Some (v\<lparr>paused := True\<rparr>)
      \<and> previewEndTimeRef (checkTime s) = None \<and> isPlaying (checkTime s) = False)
   \<and> (\<not> isScrubbing s \<longrightarrow> videoRef s = Some v \<longrightarrow> \<not> paused v \<longrightarrow>
      previewEndTimeRef s = Some b \<longrightarrow> video_currentTime v < b \<longrightarrow>
      videoRef (checkTime s) = Some v \<and> previewEndTimeRef (checkTime s) = Some b)
   \<and> (previewEndTimeRef s = Some b \<longrightarrow>
      map_option video_currentTime (videoRef (checkTime s))
        = map_option video_currentTime (videoRef s))"
proof (intro conjI impI)
  assume "videoRef s = Some v"
  then show "previewEndTimeRef (previewCut ok s c) = Some (min (duration s) (end_cut c + 1))"
    by (simp add: previewCut_def Let_def)
next
  assume "videoRef s = Some v"
  then show "map_option video_currentTime (videoRef (previewCut ok s c))
      = Some (max 0 (start c - 1))"
    by (simp add: previewCut_def Let_def)
next
  assume h: "\<not> isScrubbing s" "videoRef s = Some v" "\<not> paused v"
    "previewEndTimeRef s = Some b" "b \<le> video_currentTime v"
  from h show "videoRef (checkTime s) = Some (v\<lparr>paused := True\<rparr>)"
    by (simp add: checkTime_def Let_def)
  from h show "previewEndTimeRef (checkTime s) = None"
    by (simp add: checkTime_def Let_def)
  from h show "isPlaying (checkTime s) = False"
    by (simp add: checkTime_def Let_def)
next
  assume h: "\<not> isScrubbing s" "videoRef s = Some v" "\<not> paused v"
    "previewEndTimeRef s = Some b" "video_currentTime v < b"
  from h show "videoRef (checkTime s) = Some v"
    by (simp add: checkTime_def Let_def split: option.splits)
  from h show "previewEndTimeRef (checkTime s) = Some b"
    by (simp add: checkTime_def Let_def split: option.splits)
next
  assume "previewEndTimeRef s = Some b"
  then show "map_option video_currentTime (videoRef (checkTime s))
        = map_option video_currentTime (videoRef s)"
    by (simp add: checkTime_def Let_def split: option.splits)
qed

theorem preview_bounding_witness:
  "previewEndTimeRef (previewCut True (pausedAt [mkCut ''a'' 10 12 accepted] 100 50)
       (mkCut ''a'' 10 12 accepted)) = Some 13
   \<and> map_option video_currentTime
       (videoRef (previewCut True (pausedAt [mkCut ''a'' 10 12 accepted] 100 50)
          (mkCut ''a'' 10 12 accepted))) = Some 9
   \<and> videoRef (checkTime
        ((playingAt [mkCut ''a'' 10 12 accepted] 100 13)\<lparr>previewEndTimeRef := Some 13\<rparr>))
       = Some \<lparr>paused = True, video_currentTime = 13\<rparr>
   \<and> previewEndTimeRef (checkTime
        ((playingAt [mkCut ''a'' 10 12 accepted] 100 13)\<lparr>previewEndTimeRef := Some 13\<rparr>))
       = None
   \<and> videoRef (checkTime
        ((playingAt [mkCut ''a'' 10 12 accepted] 100 11)\<lparr>previewEndTimeRef := Some 13\<rparr>))
       = Some \<lparr>paused = False, video_currentTime = 11\<rparr>"
proof (intro conjI)
  have v: "videoRef (pausedAt [mkCut ''a'' 10 12 accepted] 100 50)
      = Some \<lparr>paused = True, video_currentTime = 50\<rparr>"
    by (simp add: pausedAt_def)
  from preview_bounding
    [of "pausedAt [mkCut ''a'' 10 12 accepted] 100 50"
        "\<lparr>paused = True, video_currentTime = 50\<rparr>" True "mkCut ''a'' 10 12 accepted"] v
  have e: "previewEndTimeRef (previewCut True (pausedAt [mkCut ''a'' 10 12 accepted] 100 50)
          (mkCut ''a'' 10 12 accepted))
        = Some (min (duration (pausedAt [mkCut ''a'' 10 12 accepted] 100 50))
                    (end_cut (mkCut ''a'' 10 12 accepted) + 1))"
    and p: "map_option video_currentTime
          (videoRef (previewCut True (pausedAt [mkCut ''a'' 10 12 accepted] 100 50)
             (mkCut ''a'' 10 12 accepted)))
        = Some (max 0 (start (mkCut ''a'' 10 12 accepted) - 1))"
    by blast+
  from e show "previewEndTimeRef (previewCut True (pausedAt [mkCut ''a'' 10 12 accepted] 100 50)
       (mkCut ''a'' 10 12 accepted)) = Some 13"
    by (simp add: pausedAt_def mkCut_def)
  from p show "map_option video_currentTime
       (videoRef (previewCut True (pausedAt [mkCut ''a'' 10 12 accepted] 100 50)
          (mkCut ''a'' 10 12 accepted))) = Some 9"
    by (simp add: mkCut_def)
next
  let ?s = "(playingAt [mkCut ''a'' 10 12 accepted] 100 13)\<lparr>previewEndTimeRef := Some 13\<rparr>"
  have h: "\<not> isScrubbing ?s" "videoRef ?s = Some \<lparr>paused = False, video_currentTime = 13\<rparr>"
    "\<not> paused \<lparr>paused = False, video_currentTime = 13\<rparr>" "previewEndTimeRef ?s = Some 13"
    "13 \<le> video_currentTime \<lparr>paused = False, video_currentTime = 13\<rparr>"
    by (simp_all add: playingAt_def)
  from preview_bounding [of ?s "\<lparr>paused = False, video_currentTime = 13\<rparr>" _ _ 13] h
  have a: "videoRef (checkTime ?s)
        = Some (\<lparr>paused = False, video_currentTime = 13\<rparr>\<lparr>paused := True\<rparr>)"
    and b: "previewEndTimeRef (checkTime ?s) = None"
    by blast+
  from a show "videoRef (checkTime ?s) = Some \<lparr>paused = True, video_currentTime = 13\<rparr>"
    by simp
  from b show "previewEndTimeRef (checkTime ?s) = None" .
next
  let ?s = "(playingAt [mkCut ''a'' 10 12 accepted] 100 11)\<lparr>previewEndTimeRef := Some 13\<rparr>"
  have h: "\<not> isScrubbing ?s" "videoRef ?s = Some \<lparr>paused = False, video_currentTime = 11\<rparr>"
    "\<not> paused \<lparr>paused = False, video_currentTime = 11\<rparr>" "previewEndTimeRef ?s = Some 13"
    "video_currentTime \<lparr>paused = False, video_currentTime = 11\<rparr> < 13"
    by (simp_all add: playingAt_def)
  from preview_bounding [of ?s "\<lparr>paused = False, video_currentTime = 11\<rparr>" _ _ 13] h
  show "videoRef (checkTime ?s) = Some \<lparr>paused = False, video_currentTime = 11\<rparr>"
    by blast
qed

section \<open>Time to timeline fraction and back\<close>

text \<open>
  The error of a rounded quotient followed by a rounded product, each within the
  relative bound \<open>u\<close> and the absolute bound \<open>h\<close>.
\<close>

lemma roundtrip_error:
  fixes t d u h q T :: real
  assumes u: "0 \<le> u" and h: "0 \<le> h" and d: "0 < d" and t0: "0 \<le> t"
    and e1: "\<bar>q - t / d\<bar> \<le> u * \<bar>t / d\<bar> + h"
    and e2: "\<bar>T - q * d\<bar> \<le> u * \<bar>q * d\<bar> + h"
  shows "\<bar>T - t\<bar> \<le> (2 * u + u\<^sup>2) * t + h * (d * (1 + u) + 1)"
proof -
  have a: "\<bar>t / d\<bar> = t / d" using d t0 by simp
  have "\<bar>q * d - t\<bar> = \<bar>q - t / d\<bar> * d"
  proof -
    have "q * d - t = (q - t / d) * d" using d by (simp add: field_simps)
    then show ?thesis using d by (simp add: abs_mult)
  qed
  also have "\<dots> \<le> (u * (t / d) + h) * d"
    by (rule mult_right_mono) (use e1 a d in auto)
  also have "\<dots> = u * t + h * d" using d by (simp add: field_simps)
  finally have p: "\<bar>q * d - t\<bar> \<le> u * t + h * d" .
  have "\<bar>q * d\<bar> \<le> \<bar>q * d - t\<bar> + \<bar>t\<bar>" by simp
  with p t0 have pa: "\<bar>q * d\<bar> \<le> t + u * t + h * d" by simp
  have "u * \<bar>q * d\<bar> \<le> u * (t + u * t + h * d)"
    by (rule mult_left_mono) (use pa u in auto)
  with e2 have "\<bar>T - q * d\<bar> \<le> u * (t + u * t + h * d) + h" by simp
  moreover have "\<bar>T - t\<bar> \<le> \<bar>T - q * d\<bar> + \<bar>q * d - t\<bar>" by simp
  ultimately have "\<bar>T - t\<bar> \<le> u * (t + u * t + h * d) + h + (u * t + h * d)"
    using p by simp
  also have "\<dots> = (2 * u + u\<^sup>2) * t + h * (d * (1 + u) + 1)"
    by (simp add: algebra_simps power2_eq_square)
  finally show ?thesis .
qed

text \<open>
  Claim C8, as the code has it. For a positive duration and a time \<open>t\<close> in
  \<open>[0, duration]\<close>, let \<open>q\<close> be the fraction at which the play head is drawn, the rounded
  quotient \<open>t / duration\<close>. A scrub on a timeline of non-zero width at a pointer position
  whose fraction of the width is \<open>q\<close> writes a time \<open>T\<close> to the position and to the
  video that is \<open>t\<close> within floating tolerance:
  \<open>\<bar>T - t\<bar> \<le> (2 u + u\<^sup>2) t + h (duration (1 + u) + 1)\<close>, where the quotient and the
  product round with a relative error of at most \<open>u\<close> and an absolute error of at most
  \<open>h\<close>. With a duration of 0 the scrub handler divides nothing and changes nothing, and
  the fraction at which the play head is drawn at time 0 is not 0 but the unguarded
  quotient \<open>0 / 0\<close>, which is \<open>NaN\<close>.
\<close>

theorem scrub_roundtrip:
  "(0 \<le> u \<longrightarrow> 0 \<le> h \<longrightarrow> 0 < duration s \<longrightarrow> 0 \<le> t \<longrightarrow> t \<le> duration s \<longrightarrow>
      timelineRef s = Some r \<longrightarrow> rect_width r \<noteq> 0 \<longrightarrow> videoRef s = Some v \<longrightarrow>
      playheadFraction rnd t (duration s) = Num q \<longrightarrow>
      js_div rnd (max 0 (min (rnd (x - rect_left r)) (rect_width r))) (rect_width r) = Num q \<longrightarrow>
      errorWithin u h rnd (t / duration s) \<longrightarrow> errorWithin u h rnd (q * duration s) \<longrightarrow>
      (\<exists>T s'. handleScrubMove rnd s x = Inr s' \<and> currentTime s' = Num T
           \<and> videoRef s' = Some (v\<lparr>video_currentTime := T\<rparr>)
           \<and> \<bar>T - t\<bar> \<le> (2 * u + u\<^sup>2) * t + h * (duration s * (1 + u) + 1)))
   \<and> (duration s = 0 \<longrightarrow> handleScrubMove rnd s x = Inr s)
   \<and> playheadFraction rnd 0 0 = NaN"
proof (intro conjI impI)
  assume u: "0 \<le> u" and h: "0 \<le> h" and d: "0 < duration s" and t0: "0 \<le> t"
    and t1: "t \<le> duration s" and r: "timelineRef s = Some r" and w: "rect_width r \<noteq> 0"
    and v: "videoRef s = Some v" and f: "playheadFraction rnd t (duration s) = Num q"
    and g: "js_div rnd (max 0 (min (rnd (x - rect_left r)) (rect_width r))) (rect_width r)
              = Num q"
    and e1: "errorWithin u h rnd (t / duration s)"
    and e2: "errorWithin u h rnd (q * duration s)"
  from f d have q: "q = rnd (t / duration s)"
    by (simp add: playheadFraction_def js_div_def)
  from g w have q': "rnd (max 0 (min (rnd (x - rect_left r)) (rect_width r)) / rect_width r) = q"
    by (simp add: js_div_def)
  let ?T = "rnd (q * duration s)"
  have T: "?T = rnd (rnd (max 0 (min (rnd (x - rect_left r)) (rect_width r)) / rect_width r)
                  * duration s)"
    by (simp add: q')
  have m: "handleScrubMove rnd s x
      = Inr (s\<lparr>currentTime := Num ?T, videoRef := Some (v\<lparr>video_currentTime := ?T\<rparr>),
               activeCutId := map_option id_cut
                  (find (\<lambda>c. ?T \<ge> start c \<and> ?T < end_cut c) (cuts s))\<rparr>)"
    by (rule handleScrubMove_mounted [where rnd = rnd and x = x, OF r v d w T])
  have b1: "\<bar>q - t / duration s\<bar> \<le> u * \<bar>t / duration s\<bar> + h"
    using e1 by (simp add: errorWithin_def q)
  have b2: "\<bar>?T - q * duration s\<bar> \<le> u * \<bar>q * duration s\<bar> + h"
    using e2 by (simp add: errorWithin_def)
  have "\<bar>?T - t\<bar> \<le> (2 * u + u\<^sup>2) * t + h * (duration s * (1 + u) + 1)"
    by (rule roundtrip_error [OF u h d t0 b1 b2])
  then show "\<exists>T s'. handleScrubMove rnd s x = Inr s' \<and> currentTime s' = Num T
           \<and> videoRef s' = Some (v\<lparr>video_currentTime := T\<rparr>)
           \<and> \<bar>T - t\<bar> \<le> (2 * u + u\<^sup>2) * t + h * (duration s * (1 + u) + 1)"
    unfolding m by (intro exI [of _ ?T]) simp
next
  assume "duration s = 0"
  then show "handleScrubMove rnd s x = Inr s"
    by (simp add: handleScrubMove_def split: option.splits)
next
  show "playheadFraction rnd 0 0 = NaN"
    by (simp add: playheadFraction_def js_div_def)
qed

text \<open>
  The witness rounds to three decimals: the play head of time 7 in a duration of 9 is
  drawn at the fraction 0.778, and a scrub at 778 of 1000 pixels writes 7.002.
\<close>

theorem scrub_roundtrip_witness:
  "playheadFraction fixed3 7 9 = Num (778 / 1000)
   \<and> handleScrubMove fixed3
        ((pausedAt [] 9 0)\<lparr>timelineRef := Some \<lparr>rect_left = 0, rect_width = 1000\<rparr>\<rparr>) 778
       = Inr ((pausedAt [] 9 0)\<lparr>timelineRef := Some \<lparr>rect_left = 0, rect_width = 1000\<rparr>,
                currentTime := Num (7002 / 1000),
                videoRef := Some \<lparr>paused = True, video_currentTime = 7002 / 1000\<rparr>\<rparr>)
   \<and> \<bar>7002 / 1000 - 7\<bar> \<le> (2 * 0 + 0\<^sup>2) * 7 + (1 / 2000) * (9 * (1 + 0) + 1 :: real)
   \<and> handleScrubMove fixed3 (pausedAt [] 0 0) 200 = Inr (pausedAt [] 0 0)"
proof (intro conjI)
  have "\<bar>(7000 / 9 :: real) - of_int 778\<bar> < 1 / 2" by simp
  then have r79: "round (7000 / 9 :: real) = 778" by (rule round_unique')
  have g: "fixed3 (7 / 9) = 389 / 500" "fixed3 778 = 778" "fixed3 (389 / 500) = 389 / 500"
    "fixed3 (3501 / 500) = 3501 / 500"
    by (simp_all add: fixed3_def r79)
  let ?s = "(pausedAt [] 9 0)\<lparr>timelineRef := Some \<lparr>rect_left = 0, rect_width = 1000\<rparr>\<rparr>"
  let ?r = "\<lparr>rect_left = 0, rect_width = 1000\<rparr>" and ?v = "\<lparr>paused = True, video_currentTime = 0\<rparr>"
  show f: "playheadFraction fixed3 7 9 = Num (778 / 1000)"
    by (simp add: playheadFraction_def js_div_def g)
  have m: "handleScrubMove fixed3 ?s 778
       = Inr ((pausedAt [] 9 0)\<lparr>timelineRef := Some ?r,
                currentTime := Num (7002 / 1000),
                videoRef := Some \<lparr>paused = True, video_currentTime = 7002 / 1000\<rparr>\<rparr>)"
    by (simp add: handleScrubMove_def js_div_def pausedAt_def Let_def g)
  have h: "(0::real) \<le> 0" "(0::real) \<le> 1 / 2000" "0 < duration ?s" "(0::real) \<le> 7"
    "7 \<le> duration ?s" "timelineRef ?s = Some ?r" "rect_width ?r \<noteq> 0" "videoRef ?s = Some ?v"
    "playheadFraction fixed3 7 (duration ?s) = Num (778 / 1000)"
    "js_div fixed3 (max 0 (min (fixed3 (778 - rect_left ?r)) (rect_width ?r))) (rect_width ?r)
       = Num (778 / 1000)"
    "errorWithin 0 (1 / 2000) fixed3 (7 / duration ?s)"
    "errorWithin 0 (1 / 2000) fixed3 (778 / 1000 * duration ?s)"
    by (simp_all add: pausedAt_def playheadFraction_def js_div_def g fixed3_error)
  from scrub_roundtrip [of 0 "1 / 2000" ?s 7 ?r ?v fixed3 "778 / 1000" 778] h
  obtain T s' where e: "handleScrubMove fixed3 ?s 778 = Inr s'" "currentTime s' = Num T"
    and b: "\<bar>T - 7\<bar> \<le> (2 * 0 + 0\<^sup>2) * 7 + (1 / 2000) * (duration ?s * (1 + 0) + 1)"
    by blast
  from e(1) have "s' = (pausedAt [] 9 0)\<lparr>timelineRef := Some ?r,
                currentTime := Num (7002 / 1000),
                videoRef := Some \<lparr>paused = True, video_currentTime = 7002 / 1000\<rparr>\<rparr>"
    unfolding m by simp
  with e(2) have "T = 7002 / 1000" by simp
  with b show "\<bar>7002 / 1000 - 7\<bar> \<le> (2 * 0 + 0\<^sup>2) * 7 + (1 / 2000) * (9 * (1 + 0) + 1 :: real)"
    by (simp add: pausedAt_def)
  from e m show "handleScrubMove fixed3 ?s 778
       = Inr ((pausedAt [] 9 0)\<lparr>timelineRef := Some ?r,
                currentTime := Num (7002 / 1000),
                videoRef := Some \<lparr>paused = True, video_currentTime = 7002 / 1000\<rparr>\<rparr>)"
    by blast
next
  have d: "duration (pausedAt [] 0 0) = 0" by (simp add: pausedAt_def)
  from scrub_roundtrip [of _ _ "pausedAt [] 0 0" _ _ _ fixed3 _ 200] d
  show "handleScrubMove fixed3 (pausedAt [] 0 0) 200 = Inr (pausedAt [] 0 0)" by blast
qed

text \<open>
  With time 0 and duration 0, the state before the metadata has loaded, the fraction at
  which the play head is drawn is the quotient \<open>0 / 0\<close>: not a number, and not 0,
  whatever the rounding.
\<close>

theorem playheadFraction_zero_duration_counterexample:
  "playheadFraction fixed3 0 0 = NaN \<and> playheadFraction fixed3 0 0 \<noteq> Num 0"
  by (simp add: playheadFraction_def js_div_def)

end
